theory Spec2Isabelle
  imports Complex_Main "HOL-Library.Sublist" "HOL-Library.Product_Lexorder" "HOL-Library.Multiset"
begin

section \<open>Exceptions and Python primitives\<close>

text \<open>
  The Python sources raise and catch instances of \<open>Exception\<close>. A raised exception is a
  value carrying its class and the text that \<open>str(e)\<close> gives. A computation that may raise
  has type \<open>exn + 'a\<close>, with \<open>Inl\<close> the raised exception.

  Python floats are modelled as exact rationals and Python strings as ASCII strings.
\<close>

datatype exn_class = ValueError | IndexError | ImportError | OSError | RuntimeError

datatype exn = Raised exn_class string

fun str_exn :: "exn \<Rightarrow> string" where
  "str_exn (Raised c m) = m"

subsection \<open>\<open>round\<close>\<close>

text \<open>Python's \<open>round(x)\<close> rounds to the nearest integer, ties to the even one.\<close>

definition py_round :: "rat \<Rightarrow> int" where
  "py_round q =
     (let f = \<lfloor>q\<rfloor>; d = q - of_int f
      in if d < 1 / 2 then f
         else if 1 / 2 < d then f + 1
         else if even f then f else f + 1)"

text \<open>\<open>round(x, n)\<close> keeps \<open>n\<close> decimals.\<close>

definition py_round_ndigits :: "rat \<Rightarrow> nat \<Rightarrow> rat" where
  "py_round_ndigits q n = of_int (py_round (q * 10 ^ n)) / 10 ^ n"

subsection \<open>Strings\<close>

text \<open>
  \<open>s.replace(old, new)\<close> replaces the non-overlapping occurrences of \<open>old\<close> from the
  left. Both calls in the source pass a non-empty literal for \<open>old\<close>; for an empty
  \<open>old\<close> the string is returned as it is.
\<close>

function str_replace :: "string \<Rightarrow> string \<Rightarrow> string \<Rightarrow> string" where
  "str_replace old new s =
     (if old = [] \<or> s = [] then s
      else if prefix old s then new @ str_replace old new (drop (length old) s)
      else hd s # str_replace old new (tl s))"
  by pat_completeness auto
termination
  by (relation "measure (\<lambda>(old, new, s). length s)") auto

declare str_replace.simps [simp del]

text \<open>
  \<open>Path.stem\<close>: the file name without its last suffix. The name has a suffix when its
  last dot is neither the first nor the last character.
\<close>

definition stem :: "string \<Rightarrow> string" where
  "stem name =
     (let k = length (takeWhile (\<lambda>c. c \<noteq> CHR ''.'') (rev name))
      in if k < length name \<and> 0 < k \<and> 0 < length name - 1 - k
         then take (length name - 1 - k) name
         else name)"

subsection \<open>\<open>int(str)\<close>\<close>

text \<open>
  \<open>int(s)\<close> in base 10: surrounding whitespace (the space and the characters 0x09 to
  0x0D) is stripped, one sign is allowed, and the digits may be grouped with single
  underscores between two digits. Anything else raises
  \<open>ValueError\<close>, here \<open>None\<close>. The interpreter's configurable limit on the number of
  digits is not modelled.
\<close>

definition is_py_space :: "char \<Rightarrow> bool" where
  "is_py_space c \<longleftrightarrow>
     c \<in> set [CHR '' '', CHR 0x09, CHR 0x0A, CHR 0x0B, CHR 0x0C, CHR 0x0D]"

definition py_strip :: "string \<Rightarrow> string" where
  "py_strip s = rev (dropWhile is_py_space (rev (dropWhile is_py_space s)))"

definition is_digit :: "char \<Rightarrow> bool" where
  "is_digit c \<longleftrightarrow> 48 \<le> (of_char c :: nat) \<and> (of_char c :: nat) \<le> 57"

definition digit_val :: "char \<Rightarrow> nat" where
  "digit_val c = of_char c - 48"

text \<open>\<open>parse_digits pd acc s\<close>: \<open>pd\<close> says that the previous character was a digit.\<close>

fun parse_digits :: "bool \<Rightarrow> nat \<Rightarrow> string \<Rightarrow> nat option" where
  "parse_digits pd acc [] = (if pd then Some acc else None)"
| "parse_digits pd acc (c # cs) =
     (if is_digit c then parse_digits True (acc * 10 + digit_val c) cs
      else if c = CHR ''_'' \<and> pd \<and> cs \<noteq> [] \<and> is_digit (hd cs)
        then parse_digits False acc cs
      else None)"

definition py_int :: "string \<Rightarrow> int option" where
  "py_int s =
     (case py_strip s of
        [] \<Rightarrow> None
      | c # cs \<Rightarrow>
          if c = CHR ''-'' then map_option (\<lambda>n. - int n) (parse_digits False 0 cs)
          else if c = CHR ''+'' then map_option int (parse_digits False 0 cs)
          else map_option int (parse_digits False 0 (c # cs)))"

section \<open>Anatomical ordering: \<open>VertebraeDetector._vertebra_sort_key\<close>\<close>

definition section_order :: "char \<rightharpoonup> nat" where
  "section_order =
     [CHR ''C'' \<mapsto> 0, CHR ''T'' \<mapsto> 1, CHR ''L'' \<mapsto> 2, CHR ''S'' \<mapsto> 3]"

text \<open>
  \<open>label[0]\<close> raises \<open>IndexError\<close> on the empty label, \<open>int(label[1:])\<close> raises
  \<open>ValueError\<close> when the rest is not an integer literal.
\<close>

definition vertebra_sort_key :: "string \<Rightarrow> exn + (nat \<times> int)" where
  "vertebra_sort_key label =
     (case label of
        [] \<Rightarrow> Inl (Raised IndexError ''string index out of range'')
      | section # rest \<Rightarrow>
          (case py_int rest of
             None \<Rightarrow>
               Inl (Raised ValueError
                 (''invalid literal for int() with base 10: '' @ [CHR 0x27] @ rest @ [CHR 0x27]))
           | Some number \<Rightarrow>
               Inr ((case section_order section of None \<Rightarrow> 999 | Some r \<Rightarrow> r), number)))"

text \<open>
  \<open>list.sort(key=f)\<close> first calls \<open>f\<close> on every element in order, so the first
  exception of a key computation leaves the sort; then it sorts stably by the keys.
  Tuples compare lexicographically.
\<close>

fun compute_keys :: "('a \<Rightarrow> exn + 'k) \<Rightarrow> 'a list \<Rightarrow> exn + ('k \<times> 'a) list" where
  "compute_keys f [] = Inr []"
| "compute_keys f (x # xs) =
     (case f x of
        Inl e \<Rightarrow> Inl e
      | Inr k \<Rightarrow> (case compute_keys f xs of Inl e \<Rightarrow> Inl e | Inr kxs \<Rightarrow> Inr ((k, x) # kxs)))"

definition py_sort :: "('a \<Rightarrow> exn + 'k::linorder) \<Rightarrow> 'a list \<Rightarrow> exn + 'a list" where
  "py_sort f xs =
     (case compute_keys f xs of
        Inl e \<Rightarrow> Inl e
      | Inr kxs \<Rightarrow> Inr (map snd (sort_key fst kxs)))"

section \<open>Mask result parser: \<open>VertebraeDetector._parse_segmentation_results\<close>\<close>

text \<open>
  The original image gives \<open>spacing\<close> and \<open>origin\<close>, each in (x, y, z) order. A mask
  array is indexed \<open>[z][y][x]\<close>, as \<open>GetArrayFromImage\<close> returns it. A file of the
  output directory has a name and the outcome of \<open>sitk.ReadImage\<close> on it.
\<close>

record image =
  spacing :: "rat \<times> rat \<times> rat"
  origin :: "rat \<times> rat \<times> rat"

type_synonym mask_array = "int list list list"

record label_file =
  file_name :: string
  read_image :: "exn + mask_array"

record landmark =
  label :: string
  center :: "int \<times> int \<times> int"
  center_physical :: "rat \<times> rat \<times> rat"
  bounds_min :: "int \<times> int \<times> int"
  bounds_max :: "int \<times> int \<times> int"
  confidence :: rat
  voxel_count :: nat

text \<open>\<open>np.any(a)\<close>: some entry is non-zero.\<close>

definition np_any :: "mask_array \<Rightarrow> bool" where
  "np_any a = list_ex (list_ex (list_ex (\<lambda>v. v \<noteq> 0))) a"

text \<open>\<open>np.argwhere(a > 0)\<close>: the indices (z, y, x) of the positive entries, row-major.\<close>

definition argwhere_pos :: "mask_array \<Rightarrow> (nat \<times> nat \<times> nat) list" where
  "argwhere_pos a =
     concat (map (\<lambda>(z, plane).
       concat (map (\<lambda>(y, row).
         map (\<lambda>(x, v). (z, y, x)) (filter (\<lambda>(x, v). 0 < v) (enumerate 0 row)))
       (enumerate 0 plane)))
     (enumerate 0 a))"

text \<open>Column mean, minimum and maximum of a non-empty list of indices.\<close>

definition axis_mean :: "nat list \<Rightarrow> rat" where
  "axis_mean xs = of_nat (sum_list xs) / of_nat (length xs)"

definition axis_min :: "nat list \<Rightarrow> nat" where
  "axis_min xs = fold min (tl xs) (hd xs)"

definition axis_max :: "nat list \<Rightarrow> nat" where
  "axis_max xs = fold max (tl xs) (hd xs)"

text \<open>\<open>min(labeled_voxels / 1000, 1.0)\<close>, then \<open>round(float(confidence), 3)\<close>.\<close>

definition confidence_of :: "nat \<Rightarrow> rat" where
  "confidence_of labeled_voxels = py_round_ndigits (min (of_nat labeled_voxels / 1000) 1) 3"

text \<open>
  The centroid is in array order (z, y, x); the physical point is in (x, y, z) order:
  \<open>x * spacing[0] + origin[0]\<close>, \<open>y * spacing[1] + origin[1]\<close>,
  \<open>z * spacing[2] + origin[2]\<close>.
\<close>

definition voxel_to_physical :: "image \<Rightarrow> rat \<times> rat \<times> rat \<Rightarrow> rat \<times> rat \<times> rat" where
  "voxel_to_physical img centroid =
     (case centroid of (z, y, x) \<Rightarrow>
        (case spacing img of (s0, s1, s2) \<Rightarrow>
           (case origin img of (o0, o1, o2) \<Rightarrow>
              (x * s0 + o0, y * s1 + o1, z * s2 + o2))))"

text \<open>The body of the \<open>try\<close> after the mask is read; \<open>None\<close> is \<open>continue\<close>.\<close>

definition process_mask :: "image \<Rightarrow> string \<Rightarrow> mask_array \<Rightarrow> landmark option" where
  "process_mask img vertebra_id mask_array =
     (if \<not> np_any mask_array then None
      else
        let coords = argwhere_pos mask_array in
        if length coords = 0 then None
        else
          let zs = map fst coords;
              ys = map (fst \<circ> snd) coords;
              xs = map (snd \<circ> snd) coords;
              centroid = (axis_mean zs, axis_mean ys, axis_mean xs);
              labeled_voxels = length coords;
              phys = voxel_to_physical img centroid
          in Some \<lparr>
               label = vertebra_id,
               center = (py_round (axis_mean xs), py_round (axis_mean ys), py_round (axis_mean zs)),
               center_physical =
                 (py_round_ndigits (fst phys) 2,
                  py_round_ndigits (fst (snd phys)) 2,
                  py_round_ndigits (snd (snd phys)) 2),
               bounds_min = (int (axis_min xs), int (axis_min ys), int (axis_min zs)),
               bounds_max = (int (axis_max xs), int (axis_max ys), int (axis_max zs)),
               confidence = confidence_of labeled_voxels,
               voxel_count = labeled_voxels
             \<rparr>)"

text \<open>What one iteration of the loop over \<open>output_dir.glob("*.nii.gz")\<close> does.\<close>

datatype outcome = Skip | Warn string | Emit landmark

definition label_name_of :: "string \<Rightarrow> string" where
  "label_name_of name = str_replace ''.nii'' [] (stem name)"

definition vertebra_id_of :: "string \<Rightarrow> string" where
  "vertebra_id_of name = str_replace ''vertebrae_'' [] (label_name_of name)"

definition process_file :: "image \<Rightarrow> label_file \<Rightarrow> outcome" where
  "process_file img f =
     (let label_name = label_name_of (file_name f) in
      if \<not> prefix ''vertebrae_'' label_name then Skip
      else
        case read_image f of
          Inl e \<Rightarrow>
            Warn (''Warning: Failed to process '' @ label_name @ '': '' @ str_exn e)
        | Inr mask_array \<Rightarrow>
            (case process_mask img (vertebra_id_of (file_name f)) mask_array of
               None \<Rightarrow> Skip
             | Some v \<Rightarrow> Emit v))"

text \<open>The loop: the records appended to \<open>vertebrae\<close> and the warnings printed, in order.\<close>

fun collect :: "image \<Rightarrow> label_file list \<Rightarrow> landmark list \<times> string list" where
  "collect img [] = ([], [])"
| "collect img (f # fs) =
     (case collect img fs of (vs, ws) \<Rightarrow>
        (case process_file img f of
           Skip \<Rightarrow> (vs, ws)
         | Warn w \<Rightarrow> (vs, w # ws)
         | Emit v \<Rightarrow> (v # vs, ws)))"

definition glob_nii_gz :: "label_file list \<Rightarrow> label_file list" where
  "glob_nii_gz dir = filter (\<lambda>f. suffix ''.nii.gz'' (file_name f)) dir"

text \<open>
  The result of the call (the sorted records, or the exception that leaves it) and the
  warnings printed.
\<close>

definition parse_segmentation_results ::
    "label_file list \<Rightarrow> image \<Rightarrow> (exn + landmark list) \<times> string list" where
  "parse_segmentation_results output_dir original_image =
     (case collect original_image (glob_nii_gz output_dir) of (vertebrae, warnings) \<Rightarrow>
        (py_sort (\<lambda>v. vertebra_sort_key (label v)) vertebrae, warnings))"

section \<open>Inference orchestrator: \<open>VertebraeDetector.run_inference\<close>\<close>

definition VERTEBRAE_LABELS :: "string list" where
  "VERTEBRAE_LABELS =
     [''vertebrae_C1'', ''vertebrae_C2'', ''vertebrae_C3'', ''vertebrae_C4'',
      ''vertebrae_C5'', ''vertebrae_C6'', ''vertebrae_C7'',
      ''vertebrae_T1'', ''vertebrae_T2'', ''vertebrae_T3'', ''vertebrae_T4'',
      ''vertebrae_T5'', ''vertebrae_T6'', ''vertebrae_T7'', ''vertebrae_T8'',
      ''vertebrae_T9'', ''vertebrae_T10'', ''vertebrae_T11'', ''vertebrae_T12'',
      ''vertebrae_L1'', ''vertebrae_L2'', ''vertebrae_L3'', ''vertebrae_L4'', ''vertebrae_L5'',
      ''vertebrae_S1'']"

record detector =
  device :: string
  fast_mode :: bool

text \<open>
  What the call meets outside the program: the readings of \<open>time.time()\<close> (at the start,
  before the successful return, in the handler), the two DICOM readers, the creation and
  the removal of the temporary directory, and the external model, which is given the input
  path, the structures, the fast flag and the device and leaves the files of the output
  directory or raises.
\<close>

record world =
  time_start :: rat
  time_done :: rat
  time_failed :: rat
  dcmread :: "string \<Rightarrow> exn option"
  sitk_ReadImage :: "string \<Rightarrow> exn + image"
  tempdir_create :: "exn option"
  tempdir_cleanup :: "exn option"
  totalsegmentator :: "string \<Rightarrow> string list \<Rightarrow> bool \<Rightarrow> string \<Rightarrow> exn + label_file list"

record inference_result =
  success :: bool
  error :: "string option"
  vertebrae :: "landmark list option"
  processing_time_ms :: rat
  result_device :: "string option"
  result_fast_mode :: "bool option"

definition load_dicom :: "world \<Rightarrow> string \<Rightarrow> exn + image" where
  "load_dicom w file_path =
     (case dcmread w file_path of
        Some e \<Rightarrow> Inl (Raised ValueError (''Failed to load DICOM file: '' @ str_exn e))
      | None \<Rightarrow>
          (case sitk_ReadImage w file_path of
             Inl e \<Rightarrow> Inl (Raised ValueError (''Failed to load DICOM file: '' @ str_exn e))
           | Inr img \<Rightarrow> Inr img))"

text \<open>\<open>roi_subset or self.VERTEBRAE_LABELS\<close>: \<open>None\<close> and the empty list are falsy.\<close>

definition roi_or_default :: "string list option \<Rightarrow> string list" where
  "roi_or_default roi_subset =
     (case roi_subset of None \<Rightarrow> VERTEBRAE_LABELS | Some [] \<Rightarrow> VERTEBRAE_LABELS | Some l \<Rightarrow> l)"

text \<open>
  The \<open>try\<close> block. Leaving the \<open>with\<close> block removes the temporary directory on every
  path; an exception of the removal replaces the outcome of the block.
\<close>

definition run_inference_try ::
    "world \<Rightarrow> detector \<Rightarrow> string \<Rightarrow> string list option \<Rightarrow> exn + inference_result" where
  "run_inference_try w self input_path roi_subset =
     (case load_dicom w input_path of
        Inl e \<Rightarrow> Inl e
      | Inr img \<Rightarrow>
          (case tempdir_create w of
             Some e \<Rightarrow> Inl e
           | None \<Rightarrow>
               let inner =
                 (case totalsegmentator w input_path (roi_or_default roi_subset)
                         (fast_mode self) (device self) of
                    Inl e \<Rightarrow> Inl e
                  | Inr output_dir \<Rightarrow>
                      (case fst (parse_segmentation_results output_dir img) of
                         Inl e \<Rightarrow> Inl e
                       | Inr results \<Rightarrow>
                           Inr \<lparr> success = True,
                                 error = None,
                                 vertebrae = Some results,
                                 processing_time_ms =
                                   py_round_ndigits ((time_done w - time_start w) * 1000) 2,
                                 result_device = Some (device self),
                                 result_fast_mode = Some (fast_mode self) \<rparr>))
               in (case tempdir_cleanup w of Some e \<Rightarrow> Inl e | None \<Rightarrow> inner)))"

text \<open>\<open>except Exception as e\<close>: the handler returns the failure result.\<close>

definition run_inference ::
    "world \<Rightarrow> detector \<Rightarrow> string \<Rightarrow> string list option \<Rightarrow> exn + inference_result" where
  "run_inference w self input_path roi_subset =
     (case run_inference_try w self input_path roi_subset of
        Inr r \<Rightarrow> Inr r
      | Inl e \<Rightarrow>
          Inr \<lparr> success = False,
                error = Some (str_exn e),
                vertebrae = None,
                processing_time_ms = py_round_ndigits ((time_failed w - time_start w) * 1000) 2,
                result_device = None,
                result_fast_mode = None \<rparr>)"

section \<open>Model cache manager: \<open>ModelManager\<close>\<close>

record task_info =
  task_name :: string
  task_description :: string
  task_id :: string
  approximate_size_mb :: nat
  structures :: "string list"

definition AVAILABLE_TASKS :: "(string \<times> task_info) list" where
  "AVAILABLE_TASKS =
     [(''vertebrae'',
       \<lparr> task_name = ''Vertebrae Segmentation'',
         task_description = ''Segments all vertebrae (C1-C7, T1-T12, L1-L5, S1)'',
         task_id = ''total'',
         approximate_size_mb = 2048,
         structures = VERTEBRAE_LABELS \<rparr>),
      (''total_body'',
       \<lparr> task_name = ''Total Body Segmentation'',
         task_description = ''Segments 104 anatomical structures'',
         task_id = ''total'',
         approximate_size_mb = 5120,
         structures = [] \<rparr>)]"

text \<open>
  The file system under the home directory: a file has a name and a size in bytes, a
  directory a name and its entries.
\<close>

datatype fs_node = File string nat | Dir string "fs_node list"

fun node_name :: "fs_node \<Rightarrow> string" where
  "node_name (File n s) = n"
| "node_name (Dir n cs) = n"

fun lookup_path :: "fs_node list \<Rightarrow> string list \<Rightarrow> fs_node option" where
  "lookup_path ns [] = None"
| "lookup_path ns [p] = find (\<lambda>n. node_name n = p) ns"
| "lookup_path ns (p # q # ps) =
     (case find (\<lambda>n. node_name n = p) ns of
        Some (Dir n cs) \<Rightarrow> lookup_path cs (q # ps)
      | _ \<Rightarrow> None)"

text \<open>The sizes of the files among the node and what is below it.\<close>

fun file_sizes :: "fs_node \<Rightarrow> nat list" where
  "file_sizes (File n s) = [s]"
| "file_sizes (Dir n cs) = concat (map file_sizes cs)"

text \<open>
  \<open>sum(f.stat().st_size for f in p.rglob('*') if f.is_file())\<close>: \<open>rglob\<close> gives what is
  below \<open>p\<close>, and nothing when \<open>p\<close> is a file.
\<close>

fun rglob_size :: "fs_node \<Rightarrow> nat" where
  "rglob_size (File n s) = 0"
| "rglob_size (Dir n cs) = sum_list (concat (map file_sizes cs))"

fun glob_count :: "fs_node \<Rightarrow> nat" where
  "glob_count (File n s) = 0"
| "glob_count (Dir n cs) = length cs"

record manager_world =
  home_path :: string
  home :: "fs_node list"
  import_totalsegmentator :: "exn option"

record status_info =
  status_task :: string
  status_name :: string
  status_description :: string
  downloaded :: bool
  size_mb :: rat
  cache_path :: string
  status_structures :: "string list"

datatype model_status = UnknownTask string "string list" | Status status_info

definition get_model_status :: "manager_world \<Rightarrow> string \<Rightarrow> model_status" where
  "get_model_status w task =
     (case map_of AVAILABLE_TASKS task of
        None \<Rightarrow> UnknownTask (''Unknown task: '' @ task) (map fst AVAILABLE_TASKS)
      | Some info \<Rightarrow>
          let ts_cache = lookup_path (home w) [''.totalsegmentator'', ''nnunet'', ''results''];
              is_downloaded = (case ts_cache of None \<Rightarrow> False | Some n \<Rightarrow> 0 < glob_count n);
              measured =
                (if is_downloaded
                 then (case ts_cache of
                         None \<Rightarrow> 0
                       | Some n \<Rightarrow> of_nat (rglob_size n) / (1024 * 1024))
                 else 0)
          in Status \<lparr>
               status_task = task,
               status_name = task_name info,
               status_description = task_description info,
               downloaded = is_downloaded,
               size_mb = (if is_downloaded then py_round_ndigits measured 2
                          else of_nat (approximate_size_mb info)),
               cache_path = home_path w @ ''/.totalsegmentator/nnunet/results'',
               status_structures = take 5 (structures info) \<rparr>)"

text \<open>An event given to \<open>progress_callback\<close>.\<close>

record progress_event =
  status :: string
  message :: string
  progress :: rat

text \<open>\<open>str(list_of_strings)\<close>, for names without quotes or escapes.\<close>

fun join_repr :: "string list \<Rightarrow> string" where
  "join_repr [] = []"
| "join_repr [k] = [CHR 0x27] @ k @ [CHR 0x27]"
| "join_repr (k # k' # ks) = [CHR 0x27] @ k @ [CHR 0x27] @ '', '' @ join_repr (k' # ks)"

definition repr_list :: "string list \<Rightarrow> string" where
  "repr_list ks = ''['' @ join_repr ks @ '']''"

text \<open>
  \<open>download_model\<close>: \<open>has_callback\<close> says whether \<open>progress_callback\<close> was given. The
  result is what the call returns or raises, with the events the callback received, in
  order. The handler reports the error and ends with a bare \<open>raise\<close>.
\<close>

definition download_model ::
    "manager_world \<Rightarrow> string \<Rightarrow> bool \<Rightarrow> (exn + model_status) \<times> progress_event list" where
  "download_model w task has_callback =
     (case map_of AVAILABLE_TASKS task of
        None \<Rightarrow>
          (Inl (Raised ValueError
             (''Unknown task: '' @ task @ ''. Available: '' @ repr_list (map fst AVAILABLE_TASKS))),
           [])
      | Some info \<Rightarrow>
          let preparing =
                (if has_callback
                 then [\<lparr> status = ''preparing'',
                         message = ''Preparing to download '' @ task_name info,
                         progress = 0 \<rparr>]
                 else [])
          in (case import_totalsegmentator w of
                Some e \<Rightarrow>
                  (Inl e,
                   preparing @
                   (if has_callback
                    then [\<lparr> status = ''error'',
                            message = ''Failed to prepare models: '' @ str_exn e,
                            progress = 0 \<rparr>]
                    else []))
              | None \<Rightarrow>
                  let st = get_model_status w task;
                      is_dl = (case st of Status s \<Rightarrow> downloaded s | UnknownTask m ks \<Rightarrow> False)
                  in (Inr st,
                      preparing @
                      (if has_callback
                       then [\<lparr> status = ''downloading'',
                               message = ''TotalSegmentator is downloading models...'',
                               progress = 1 / 2 \<rparr>,
                             \<lparr> status = (if is_dl then ''complete'' else ''ready''),
                               message = (if is_dl then ''Models ready'' else ''Ready for first use''),
                               progress = 1 \<rparr>]
                       else []))))"

record delete_result =
  delete_success :: bool
  delete_message :: string
  freed_space_mb :: "rat option"

text \<open>
  \<open>delete_model\<close>: the result returned or the exception raised, and the file system
  after the call. \<open>shutil.rmtree\<close> removes a directory and raises on a file.
\<close>

definition delete_model ::
    "manager_world \<Rightarrow> string \<Rightarrow> (exn + delete_result) \<times> fs_node list" where
  "delete_model w task =
     (case map_of AVAILABLE_TASKS task of
        None \<Rightarrow> (Inl (Raised ValueError (''Unknown task: '' @ task)), home w)
      | Some info \<Rightarrow>
          (case lookup_path (home w) [''.totalsegmentator''] of
             Some (Dir n cs) \<Rightarrow>
               (Inr \<lparr> delete_success = True,
                      delete_message = ''Deleted '' @ task @ '' models'',
                      freed_space_mb =
                        Some (py_round_ndigits (of_nat (rglob_size (Dir n cs)) / (1024 * 1024)) 2) \<rparr>,
                filter (\<lambda>c. node_name c \<noteq> ''.totalsegmentator'') (home w))
           | Some (File n s) \<Rightarrow>
               (Inl (Raised OSError (''Not a directory: '' @ home_path w @ ''/.totalsegmentator'')),
                home w)
           | None \<Rightarrow>
               (Inr \<lparr> delete_success = False,
                      delete_message = ''No models found to delete'',
                      freed_space_mb = None \<rparr>,
                home w)))"

section \<open>The inverse of the physical-coordinate transform\<close>

text \<open>
  Modelled from the spec: the inverse transform \<open>(physical[i] - origin[i]) / spacing[i]\<close>
  per axis is not in the source, which only maps voxel indices to physical coordinates.
  It takes a physical point in (x, y, z) order back to array order (z, y, x).
\<close>

definition physical_to_voxel :: "image \<Rightarrow> rat \<times> rat \<times> rat \<Rightarrow> rat \<times> rat \<times> rat" where
  "physical_to_voxel img p =
     (case p of (px, py, pz) \<Rightarrow>
        (case spacing img of (s0, s1, s2) \<Rightarrow>
           (case origin img of (o0, o1, o2) \<Rightarrow>
              ((pz - o2) / s2, (py - o1) / s1, (px - o0) / s0))))"

section \<open>The ordering that the specification states\<close>

text \<open>
  A label \<open><Section><Number>\<close>: one section character followed by a decimal numeral of a
  positive number. The sections C, T, L, S are the known ones, ranked in this order.
\<close>

definition digits_value :: "string \<Rightarrow> nat" where
  "digits_value ds = foldl (\<lambda>acc c. acc * 10 + digit_val c) 0 ds"

definition numbered_label :: "string \<Rightarrow> bool" where
  "numbered_label l =
     (case l of
        [] \<Rightarrow> False
      | s # ds \<Rightarrow> ds \<noteq> [] \<and> list_all is_digit ds \<and> 0 < digits_value ds)"

definition known_section :: "char \<Rightarrow> bool" where
  "known_section c \<longleftrightarrow> c \<in> set ''CTLS''"

definition section_rank :: "char \<Rightarrow> nat" where
  "section_rank c =
     (if c = CHR ''C'' then 0 else if c = CHR ''T'' then 1 else if c = CHR ''L'' then 2 else 3)"

text \<open>
  \<open>anatomical_before a b\<close>: \<open>a\<close> may stand before \<open>b\<close> in the sorted result. Before a
  label of a known section stand only labels of known sections, of lower rank or of the
  same rank and a number not greater; before a label of an unknown section anything may
  stand.
\<close>

definition anatomical_before :: "string \<Rightarrow> string \<Rightarrow> bool" where
  "anatomical_before a b =
     (if known_section (hd b)
      then known_section (hd a) \<and>
           (section_rank (hd a) < section_rank (hd b) \<or>
            section_rank (hd a) = section_rank (hd b) \<and> digits_value (tl a) \<le> digits_value (tl b))
      else True)"

text \<open>The key that the source computes for a label with a numeral after the section.\<close>

definition key_of :: "string \<Rightarrow> nat \<times> int" where
  "key_of l = ((case section_order (hd l) of None \<Rightarrow> 999 | Some r \<Rightarrow> r), int (digits_value (tl l)))"

section \<open>Rounding and index statistics\<close>

lemma py_round_of_int: "py_round (of_int k) = k"
  by (simp add: py_round_def)

lemma py_round_lower:
  assumes "of_int lo \<le> q"
  shows "lo \<le> py_round q"
proof -
  have "lo \<le> \<lfloor>q\<rfloor>" using assms by (simp add: le_floor_iff)
  then show ?thesis by (simp add: py_round_def Let_def)
qed

lemma py_round_upper:
  assumes "q \<le> of_int hi"
  shows "py_round q \<le> hi"
proof (cases "q = of_int \<lfloor>q\<rfloor>")
  case True
  then have "py_round q = \<lfloor>q\<rfloor>" by (simp add: py_round_def Let_def)
  moreover have "\<lfloor>q\<rfloor> \<le> hi" using assms by (simp add: floor_le_iff)
  ultimately show ?thesis by simp
next
  case False
  moreover have "of_int \<lfloor>q\<rfloor> \<le> q" by (rule of_int_floor_le)
  ultimately have "of_int \<lfloor>q\<rfloor> < q" by order
  then have "of_int \<lfloor>q\<rfloor> < (of_int hi :: rat)" using assms by linarith
  then have "\<lfloor>q\<rfloor> < hi" by simp
  then show ?thesis by (simp add: py_round_def Let_def)
qed

lemma sum_list_lower: "(\<forall>x\<in>set xs. m \<le> x) \<Longrightarrow> m * length xs \<le> sum_list (xs :: nat list)"
  by (induction xs) auto

lemma sum_list_upper: "(\<forall>x\<in>set xs. x \<le> m) \<Longrightarrow> sum_list (xs :: nat list) \<le> m * length xs"
  by (induction xs) auto

lemma axis_min_Min: "xs \<noteq> [] \<Longrightarrow> axis_min xs = Min (set xs)"
proof (cases xs)
  case Nil
  assume "xs \<noteq> []"
  with Nil show ?thesis by simp
next
  case (Cons a list)
  then show ?thesis
    unfolding axis_min_def using Min.set_eq_fold [of a list] by simp
qed

lemma axis_max_Max: "xs \<noteq> [] \<Longrightarrow> axis_max xs = Max (set xs)"
proof (cases xs)
  case Nil
  assume "xs \<noteq> []"
  with Nil show ?thesis by simp
next
  case (Cons a list)
  then show ?thesis
    unfolding axis_max_def using Max.set_eq_fold [of a list] by simp
qed

lemma axis_min_le_mean:
  assumes "xs \<noteq> []"
  shows "of_nat (axis_min xs) \<le> axis_mean xs"
proof -
  have "\<forall>x\<in>set xs. axis_min xs \<le> x" using assms by (simp add: axis_min_Min)
  then have "axis_min xs * length xs \<le> sum_list xs" by (rule sum_list_lower)
  then have "(of_nat (axis_min xs * length xs) :: rat) \<le> of_nat (sum_list xs)"
    by (simp only: of_nat_le_iff)
  moreover have "(0::rat) < of_nat (length xs)" using assms by simp
  ultimately show ?thesis by (simp add: axis_mean_def pos_le_divide_eq)
qed

lemma axis_mean_le_max:
  assumes "xs \<noteq> []"
  shows "axis_mean xs \<le> of_nat (axis_max xs)"
proof -
  have "\<forall>x\<in>set xs. x \<le> axis_max xs" using assms by (simp add: axis_max_Max)
  then have "sum_list xs \<le> axis_max xs * length xs" by (rule sum_list_upper)
  then have "(of_nat (sum_list xs) :: rat) \<le> of_nat (axis_max xs * length xs)"
    by (simp only: of_nat_le_iff)
  moreover have "(0::rat) < of_nat (length xs)" using assms by simp
  ultimately show ?thesis by (simp add: axis_mean_def pos_divide_le_eq)
qed

lemma center_between:
  assumes "xs \<noteq> []"
  shows "int (axis_min xs) \<le> py_round (axis_mean xs) \<and> py_round (axis_mean xs) \<le> int (axis_max xs)"
proof
  have "(of_int (int (axis_min xs)) :: rat) \<le> axis_mean xs"
    using axis_min_le_mean [OF assms] by simp
  then show "int (axis_min xs) \<le> py_round (axis_mean xs)" by (rule py_round_lower)
  have "axis_mean xs \<le> (of_int (int (axis_max xs)) :: rat)"
    using axis_mean_le_max [OF assms] by simp
  then show "py_round (axis_mean xs) \<le> int (axis_max xs)" by (rule py_round_upper)
qed

lemma confidence_of_eq: "confidence_of n = min (of_nat n / 1000) 1"
proof (cases "n \<le> 1000")
  case True
  then have "min (of_nat n / 1000) (1::rat) = of_nat n / 1000" by simp
  moreover have "py_round (of_nat n) = int n" using py_round_of_int [of "int n"] by simp
  ultimately show ?thesis by (simp add: confidence_of_def py_round_ndigits_def)
next
  case False
  then have "min (of_nat n / 1000) (1::rat) = 1" by simp
  moreover have "py_round 1000 = 1000" using py_round_of_int [of 1000] by simp
  ultimately show ?thesis by (simp add: confidence_of_def py_round_ndigits_def)
qed

section \<open>Sorting and the loop over the mask files\<close>

lemma compute_keys_Inr:
  "compute_keys f xs = Inr kxs \<Longrightarrow> map snd kxs = xs \<and> (\<forall>p\<in>set kxs. f (snd p) = Inr (fst p))"
  by (induction xs arbitrary: kxs) (auto split: sum.splits)

lemma compute_keys_Inl_iff:
  "isl (compute_keys f xs) \<longleftrightarrow> (\<exists>x\<in>set xs. isl (f x))"
  by (induction xs) (auto split: sum.splits)

lemma compute_keys_total:
  "(\<forall>x\<in>set xs. f x = Inr (g x)) \<Longrightarrow> compute_keys f xs = Inr (map (\<lambda>x. (g x, x)) xs)"
  by (induction xs) auto

lemma py_sort_fails_iff: "isl (py_sort f xs) \<longleftrightarrow> (\<exists>x\<in>set xs. isl (f x))"
  using compute_keys_Inl_iff [of f xs]
  by (auto simp: py_sort_def split: sum.splits)

lemma py_sort_total:
  assumes "\<forall>x\<in>set xs. f x = Inr (g x)"
  shows "py_sort f xs = Inr (sort_key g xs)"
proof -
  have "map snd (sort_key fst (map (\<lambda>x. (g x, x)) ys)) = sort_key g ys" for ys
  proof (induction ys)
    case Nil
    show ?case by simp
  next
    case (Cons y ys)
    have ins: "map snd (insort_key fst (k, y) zs) = insort_key (\<lambda>x. g x) y (map snd zs)"
      if "\<forall>p\<in>set zs. fst p = g (snd p)" and "k = g y" for k zs
      using that by (induction zs) auto
    have "\<forall>p\<in>set (sort_key fst (map (\<lambda>x. (g x, x)) ys)). fst p = g (snd p)"
      by auto
    then show ?case using Cons ins by simp
  qed
  then show ?thesis using compute_keys_total [OF assms] by (simp add: py_sort_def)
qed

lemma py_sort_mset: "py_sort f xs = Inr out \<Longrightarrow> mset out = mset xs"
proof -
  assume a: "py_sort f xs = Inr out"
  then obtain kxs where k: "compute_keys f xs = Inr kxs" and o: "out = map snd (sort_key fst kxs)"
    by (auto simp: py_sort_def split: sum.splits)
  have "mset (map snd (sort_key fst kxs)) = mset (map snd kxs)"
    by (simp only: mset_map mset_sort)
  then show ?thesis using compute_keys_Inr [OF k] o by simp
qed

lemma py_sort_set: "py_sort f xs = Inr out \<Longrightarrow> set out = set xs"
  using py_sort_mset [of f xs out] by (metis set_mset_mset)

lemma collect_append:
  "collect img (fs @ gs) = (fst (collect img fs) @ fst (collect img gs), snd (collect img fs) @ snd (collect img gs))"
  by (induction fs) (auto split: prod.splits outcome.splits)

lemma collect_emitted:
  "v \<in> set (fst (collect img fs)) \<Longrightarrow> \<exists>f\<in>set fs. process_file img f = Emit v"
  by (induction fs) (auto split: prod.splits outcome.splits)

lemma process_file_Emit:
  "process_file img f = Emit v \<Longrightarrow> \<exists>a. read_image f = Inr a \<and> process_mask img (vertebra_id_of (file_name f)) a = Some v"
  by (auto simp: process_file_def Let_def split: if_splits sum.splits option.splits)

lemma process_mask_Some:
  assumes "process_mask img vid a = Some v"
  shows "argwhere_pos a \<noteq> []"
    and "label v = vid"
    and "voxel_count v = length (argwhere_pos a)"
    and "confidence v = confidence_of (length (argwhere_pos a))"
    and "center v = (py_round (axis_mean (map (snd \<circ> snd) (argwhere_pos a))),
                     py_round (axis_mean (map (fst \<circ> snd) (argwhere_pos a))),
                     py_round (axis_mean (map fst (argwhere_pos a))))"
    and "bounds_min v = (int (axis_min (map (snd \<circ> snd) (argwhere_pos a))),
                         int (axis_min (map (fst \<circ> snd) (argwhere_pos a))),
                         int (axis_min (map fst (argwhere_pos a))))"
    and "bounds_max v = (int (axis_max (map (snd \<circ> snd) (argwhere_pos a))),
                         int (axis_max (map (fst \<circ> snd) (argwhere_pos a))),
                         int (axis_max (map fst (argwhere_pos a))))"
  using assms by (auto simp: process_mask_def Let_def split: if_splits)

lemma argwhere_pos_np_any: "argwhere_pos a \<noteq> [] \<Longrightarrow> np_any a"
proof -
  assume "argwhere_pos a \<noteq> []"
  then obtain p where "p \<in> set (argwhere_pos a)" by (cases "argwhere_pos a") auto
  then obtain z y x where "z < length a" "y < length (a ! z)" "x < length (a ! z ! y)"
      "0 < a ! z ! y ! x"
    by (auto simp: argwhere_pos_def in_set_enumerate_eq)
  then have "a ! z \<in> set a" "a ! z ! y \<in> set (a ! z)" "a ! z ! y ! x \<in> set (a ! z ! y)"
      "a ! z ! y ! x \<noteq> 0"
    by simp_all
  then show ?thesis unfolding np_any_def list_ex_iff by blast
qed

lemma process_mask_empty: "argwhere_pos a = [] \<Longrightarrow> process_mask img vid a = None"
  by (simp add: process_mask_def Let_def)

lemma process_mask_nonempty:
  "argwhere_pos a \<noteq> [] \<Longrightarrow> \<exists>v. process_mask img vid a = Some v"
  using argwhere_pos_np_any [of a] by (simp add: process_mask_def Let_def)

lemma collect_skip:
  assumes "process_file img f = Skip"
  shows "collect img (glob_nii_gz (fs @ f # gs)) = collect img (glob_nii_gz (fs @ gs))"
  using assms by (auto simp: glob_nii_gz_def collect_append split: prod.splits)


lemma parse_result:
  "fst (parse_segmentation_results dir img) =
     py_sort (\<lambda>v. vertebra_sort_key (label v)) (fst (collect img (glob_nii_gz dir)))"
  by (simp add: parse_segmentation_results_def split: prod.splits)


lemma parse_record_origin:
  assumes "fst (parse_segmentation_results dir img) = Inr out" and "v \<in> set out"
  shows "\<exists>f a. f \<in> set dir \<and> read_image f = Inr a \<and>
           process_mask img (vertebra_id_of (file_name f)) a = Some v"
proof -
  have "set out = set (fst (collect img (glob_nii_gz dir)))"
    using assms(1) by (simp add: parse_result py_sort_set)
  then have "v \<in> set (fst (collect img (glob_nii_gz dir)))" using assms(2) by simp
  then obtain f where f: "f \<in> set (glob_nii_gz dir)" "process_file img f = Emit v"
    by (blast dest: collect_emitted)
  then have "f \<in> set dir" by (simp add: glob_nii_gz_def)
  then show ?thesis using process_file_Emit [OF f(2)] by blast
qed


lemma process_file_mask:
  assumes "prefix ''vertebrae_'' (label_name_of (file_name f))" and "read_image f = Inr a"
    and "process_mask img (vertebra_id_of (file_name f)) a = Some v"
  shows "process_file img f = Emit v"
  using assms by (simp add: process_file_def Let_def)

lemma process_file_no_voxels:
  assumes "read_image f = Inr a" and "argwhere_pos a = []"
  shows "process_file img f = Skip"
  using assms by (simp add: process_file_def Let_def process_mask_empty)

lemma collect_member:
  assumes "f \<in> set fs" and "process_file img f = Emit v"
  shows "v \<in> set (fst (collect img fs))"
  using assms by (induction fs) (auto split: prod.splits outcome.splits)


lemma vertebra_sort_key_defined:
  "(\<exists>k. vertebra_sort_key l = Inr k) \<longleftrightarrow> l \<noteq> [] \<and> py_int (tl l) \<noteq> None"
  by (cases l) (auto simp: vertebra_sort_key_def split: option.splits)

lemma vertebra_sort_key_isl:
  "isl (vertebra_sort_key l) \<longleftrightarrow> l = [] \<or> py_int (tl l) = None"
  by (cases l) (auto simp: vertebra_sort_key_def split: option.splits)

section \<open>The sort key of a numbered label\<close>

lemma digit_not_space: "is_digit c \<Longrightarrow> \<not> is_py_space c"
  by (auto simp: is_digit_def is_py_space_def)

lemma digit_not_sign: "is_digit c \<Longrightarrow> c \<noteq> CHR ''-'' \<and> c \<noteq> CHR ''+''"
  by (auto simp: is_digit_def)

lemma py_strip_digits:
  assumes "list_all is_digit ds"
  shows "py_strip ds = ds"
proof (cases ds)
  case Nil
  then show ?thesis by (simp add: py_strip_def)
next
  case (Cons c cs)
  then have "\<not> is_py_space (hd ds)" using assms by (simp add: digit_not_space)
  then have a: "dropWhile is_py_space ds = ds" using Cons by simp
  have "rev ds \<noteq> []" using Cons by simp
  moreover have "hd (rev ds) \<in> set (rev ds)" using \<open>rev ds \<noteq> []\<close> by (rule hd_in_set)
  then have "hd (rev ds) \<in> set ds" by (simp only: set_rev)
  ultimately have "\<not> is_py_space (hd (rev ds))"
    using assms by (simp add: list_all_iff digit_not_space)
  then have "dropWhile is_py_space (rev ds) = rev ds"
    using \<open>rev ds \<noteq> []\<close> by (cases "rev ds") simp_all
  then show ?thesis using a by (simp add: py_strip_def)
qed

lemma parse_digits_all:
  "list_all is_digit ds \<Longrightarrow> pd \<or> ds \<noteq> [] \<Longrightarrow>
     parse_digits pd acc ds = Some (foldl (\<lambda>acc c. acc * 10 + digit_val c) acc ds)"
  by (induction ds arbitrary: pd acc) auto

lemma py_int_digits:
  assumes "list_all is_digit ds" and "ds \<noteq> []"
  shows "py_int ds = Some (int (digits_value ds))"
proof -
  obtain c cs where ds: "ds = c # cs" using assms(2) by (cases ds) auto
  then have "is_digit c" using assms(1) by simp
  then have n: "c \<noteq> CHR ''-''" "c \<noteq> CHR ''+''" using digit_not_sign by blast+
  have "parse_digits False 0 ds = Some (digits_value ds)"
    using parse_digits_all [OF assms(1), of False 0] assms(2) by (simp add: digits_value_def)
  then have p: "parse_digits False 0 (c # cs) = Some (digits_value ds)"
    by (simp only: ds)
  have s: "py_strip ds = c # cs"
    using py_strip_digits [OF assms(1)] by (simp only: ds)
  show ?thesis
    unfolding py_int_def s using n p by (simp del: parse_digits.simps)
qed

lemma numbered_label_key: "numbered_label l \<Longrightarrow> vertebra_sort_key l = Inr (key_of l)"
  by (cases l) (simp_all add: numbered_label_def vertebra_sort_key_def key_of_def py_int_digits)

lemma section_order_rank:
  "section_order c = (if known_section c then Some (section_rank c) else None)"
  by (simp add: section_order_def known_section_def section_rank_def)

lemma section_rank_le: "section_rank c \<le> 3"
  by (simp add: section_rank_def)

lemma key_le_before: "key_of a \<le> key_of b \<Longrightarrow> anatomical_before a b"
  using section_rank_le [of "hd a"] section_rank_le [of "hd b"]
  by (auto simp: key_of_def anatomical_before_def section_order_rank split: if_splits)

section \<open>Properties of the mask result parser\<close>

text \<open>
  Claim C3. Every record that the parser returns comes from a mask file of the directory
  that was read; its voxel count is the number of occupied voxels of that mask, and its
  confidence is \<open>min(occupied_voxel_count / 1000, 1)\<close>: the rounding to three decimals
  changes nothing, since the value is a multiple of one thousandth. The confidence
  therefore lies between 0 and 1, does not decrease when the voxel count grows, and is 1
  from 1000 voxels on.
\<close>

theorem confidence_is_clamped_voxel_ratio:
  assumes "fst (parse_segmentation_results output_dir img) = Inr out" and "v \<in> set out"
  shows "(\<exists>f a. f \<in> set output_dir \<and> read_image f = Inr a
            \<and> label v = vertebra_id_of (file_name f)
            \<and> voxel_count v = length (argwhere_pos a)
            \<and> confidence v = min (of_nat (length (argwhere_pos a)) / 1000) 1)
       \<and> confidence v = min (of_nat (voxel_count v) / 1000) 1
       \<and> 0 \<le> confidence v \<and> confidence v \<le> 1
       \<and> confidence v = confidence_of (voxel_count v)
       \<and> confidence_of n \<le> confidence_of (n + k)
       \<and> confidence_of (1000 + k) = 1"
proof -
  obtain f :: label_file and a
    where f: "f \<in> set output_dir" "read_image f = Inr a"
      and pm: "process_mask img (vertebra_id_of (file_name f)) a = Some v"
    using parse_record_origin [OF assms] by blast
  note facts = process_mask_Some [OF pm]
  have c: "confidence v = confidence_of (voxel_count v)"
    using facts(3,4) by simp
  have src: "\<exists>f a. f \<in> set output_dir \<and> read_image f = Inr a
            \<and> label v = vertebra_id_of (file_name f)
            \<and> voxel_count v = length (argwhere_pos a)
            \<and> confidence v = min (of_nat (length (argwhere_pos a)) / 1000) 1"
  proof -
    have "confidence v = min (of_nat (length (argwhere_pos a)) / 1000) 1"
      using facts(4) by (simp add: confidence_of_eq)
    then show ?thesis using f facts(2,3) by blast
  qed
  have mono: "confidence_of n \<le> confidence_of (n + k)"
    by (simp add: confidence_of_eq min_le_iff_disj divide_right_mono)
  have top: "confidence_of (1000 + k) = 1"
    by (simp add: confidence_of_eq)
  have rest: "confidence v = min (of_nat (voxel_count v) / 1000) 1
       \<and> 0 \<le> confidence v \<and> confidence v \<le> 1
       \<and> confidence v = confidence_of (voxel_count v)"
    using c by (simp add: confidence_of_eq)
  show ?thesis using src rest mono top by blast
qed

theorem confidence_is_clamped_voxel_ratio_witness:
  "fst (parse_segmentation_results
          [\<lparr>file_name = ''vertebrae_L1.nii.gz'', read_image = Inr [[[0, 1], [1, 1]], [[0, 0], [0, 1]]]\<rparr>]
          \<lparr>spacing = (1 / 2, 1, 3), origin = (0, 10, 0)\<rparr>)
     = Inr [\<lparr>label = ''L1'', center = (1, 1, 0), center_physical = (19 / 50, 43 / 4, 3 / 4),
             bounds_min = (0, 0, 0), bounds_max = (1, 1, 1),
             confidence = 1 / 250, voxel_count = 4\<rparr>]
   \<and> length (argwhere_pos [[[0, 1], [1, 1]], [[0, 0], [0, 1]]]) = 4
   \<and> (1 / 250 :: rat) = min (of_nat 4 / 1000) 1
   \<and> confidence_of 999 \<le> confidence_of (999 + 1)
   \<and> confidence_of (1000 + 0) = 1"
proof -
  let ?dir = "[\<lparr>file_name = ''vertebrae_L1.nii.gz'',
                 read_image = Inr [[[0, 1], [1, 1]], [[0, 0], [0, 1 :: int]]]\<rparr>]"
  let ?img = "\<lparr>spacing = (1 / 2, 1, 3), origin = (0, 10, 0)\<rparr>"
  let ?v = "\<lparr>label = ''L1'', center = (1, 1, 0), center_physical = (19 / 50, 43 / 4, 3 / 4),
             bounds_min = (0, 0, 0), bounds_max = (1, 1, 1),
             confidence = 1 / 250, voxel_count = 4\<rparr>"
  have h: "fst (parse_segmentation_results ?dir ?img) = Inr [?v]"
    by code_simp
  have m: "?v \<in> set [?v]" by simp
  have l: "length (argwhere_pos [[[0, 1], [1, 1]], [[0, 0], [0, 1]]]) = 4"
    by code_simp
  have c: "(1 / 250 :: rat) = min (of_nat 4 / 1000) 1"
    using confidence_is_clamped_voxel_ratio [OF h m] by simp
  have n: "confidence_of 999 \<le> confidence_of (999 + 1)"
    using confidence_is_clamped_voxel_ratio [OF h m, where n = 999 and k = 1] by blast
  have t: "confidence_of (1000 + 0) = 1"
    using confidence_is_clamped_voxel_ratio [OF h m, where k = 0] by blast
  show ?thesis using h l c n t by blast
qed

text \<open>
  Claim C4. A mask file whose grid has no occupied voxel produces no record: its iteration
  is skipped, and the parser returns the same result and warnings with or without the file.
  Every record that the parser returns has a voxel count greater than zero.
\<close>

theorem empty_mask_emits_no_record:
  assumes "read_image f = Inr a" and "argwhere_pos a = []"
    and "fst (parse_segmentation_results output_dir img) = Inr out" and "v \<in> set out"
  shows "process_file img f = Skip
       \<and> parse_segmentation_results (fs @ f # gs) img = parse_segmentation_results (fs @ gs) img
       \<and> 0 < voxel_count v"
proof -
  have skip: "process_file img f = Skip"
    using assms(1,2) by (rule process_file_no_voxels)
  have same: "parse_segmentation_results (fs @ f # gs) img = parse_segmentation_results (fs @ gs) img"
    by (simp add: parse_segmentation_results_def collect_skip [OF skip])
  obtain g :: label_file and b
    where "process_mask img (vertebra_id_of (file_name g)) b = Some v"
    using parse_record_origin [OF assms(3,4)] by blast
  then have "0 < voxel_count v"
    using process_mask_Some(1,3) by (metis length_greater_0_conv)
  then show ?thesis using skip same by simp
qed

theorem empty_mask_emits_no_record_witness:
  "argwhere_pos [[[0, 0], [0, -1]]] = []
   \<and> process_file \<lparr>spacing = (1, 1, 1), origin = (0, 0, 0)\<rparr>
        \<lparr>file_name = ''vertebrae_T2.nii.gz'', read_image = Inr [[[0, 0], [0, -1]]]\<rparr> = Skip
   \<and> parse_segmentation_results
        [\<lparr>file_name = ''vertebrae_T2.nii.gz'', read_image = Inr [[[0, 0], [0, -1]]]\<rparr>,
         \<lparr>file_name = ''vertebrae_L1.nii.gz'', read_image = Inr [[[1]]]\<rparr>]
        \<lparr>spacing = (1, 1, 1), origin = (0, 0, 0)\<rparr>
     = (Inr [\<lparr>label = ''L1'', center = (0, 0, 0), center_physical = (0, 0, 0),
             bounds_min = (0, 0, 0), bounds_max = (0, 0, 0),
             confidence = 1 / 1000, voxel_count = 1\<rparr>], [])"
proof -
  let ?f = "\<lparr>file_name = ''vertebrae_T2.nii.gz'', read_image = Inr [[[0, 0], [0, -1 :: int]]]\<rparr>"
  let ?g = "\<lparr>file_name = ''vertebrae_L1.nii.gz'', read_image = Inr [[[1 :: int]]]\<rparr>"
  let ?img = "\<lparr>spacing = (1, 1, 1), origin = (0, 0, 0)\<rparr>"
  let ?v = "\<lparr>label = ''L1'', center = (0, 0, 0), center_physical = (0, 0, 0),
             bounds_min = (0, 0, 0), bounds_max = (0, 0, 0),
             confidence = 1 / 1000, voxel_count = 1\<rparr>"
  have r: "read_image ?f = Inr [[[0, 0], [0, -1]]]" by simp
  have e: "argwhere_pos [[[0, 0], [0, -1]]] = []" by code_simp
  have p: "parse_segmentation_results [?g] ?img = (Inr [?v], [])" by code_simp
  then have h: "fst (parse_segmentation_results [?g] ?img) = Inr [?v]" by simp
  have m: "?v \<in> set [?v]" by simp
  show ?thesis
    using e p empty_mask_emits_no_record [OF r e h m, where fs = "[]" and gs = "[?g]"] by simp
qed

text \<open>
  Claim C6. Every record that the parser returns has, on each of the three axes,
  \<open>bounds.min \<le> center \<le> bounds.max\<close>, where the center is the rounded mean of the
  indices of the occupied voxels of a mask of the directory and the bounds are their
  minimum and maximum.
\<close>

theorem center_within_bounds:
  assumes "fst (parse_segmentation_results output_dir img) = Inr out" and "v \<in> set out"
  shows "fst (bounds_min v) \<le> fst (center v) \<and> fst (center v) \<le> fst (bounds_max v)
       \<and> fst (snd (bounds_min v)) \<le> fst (snd (center v))
       \<and> fst (snd (center v)) \<le> fst (snd (bounds_max v))
       \<and> snd (snd (bounds_min v)) \<le> snd (snd (center v))
       \<and> snd (snd (center v)) \<le> snd (snd (bounds_max v))
       \<and> (\<exists>f a. f \<in> set output_dir \<and> read_image f = Inr a
            \<and> center v = (py_round (axis_mean (map (snd \<circ> snd) (argwhere_pos a))),
                          py_round (axis_mean (map (fst \<circ> snd) (argwhere_pos a))),
                          py_round (axis_mean (map fst (argwhere_pos a))))
            \<and> bounds_min v = (int (axis_min (map (snd \<circ> snd) (argwhere_pos a))),
                              int (axis_min (map (fst \<circ> snd) (argwhere_pos a))),
                              int (axis_min (map fst (argwhere_pos a))))
            \<and> bounds_max v = (int (axis_max (map (snd \<circ> snd) (argwhere_pos a))),
                              int (axis_max (map (fst \<circ> snd) (argwhere_pos a))),
                              int (axis_max (map fst (argwhere_pos a)))))"
proof -
  obtain f :: label_file and a
    where f: "f \<in> set output_dir" "read_image f = Inr a"
      and pm: "process_mask img (vertebra_id_of (file_name f)) a = Some v"
    using parse_record_origin [OF assms] by blast
  note facts = process_mask_Some [OF pm]
  let ?cs = "argwhere_pos a"
  have ne: "map (snd \<circ> snd) ?cs \<noteq> []" "map (fst \<circ> snd) ?cs \<noteq> []" "map fst ?cs \<noteq> []"
    using facts(1) by simp_all
  have x: "fst (bounds_min v) \<le> fst (center v) \<and> fst (center v) \<le> fst (bounds_max v)"
    using center_between [OF ne(1)] by (simp add: facts(5,6,7))
  have y: "fst (snd (bounds_min v)) \<le> fst (snd (center v))
         \<and> fst (snd (center v)) \<le> fst (snd (bounds_max v))"
    using center_between [OF ne(2)] by (simp add: facts(5,6,7))
  have z: "snd (snd (bounds_min v)) \<le> snd (snd (center v))
         \<and> snd (snd (center v)) \<le> snd (snd (bounds_max v))"
    using center_between [OF ne(3)] by (simp add: facts(5,6,7))
  have w: "\<exists>f a. f \<in> set output_dir \<and> read_image f = Inr a
            \<and> center v = (py_round (axis_mean (map (snd \<circ> snd) (argwhere_pos a))),
                          py_round (axis_mean (map (fst \<circ> snd) (argwhere_pos a))),
                          py_round (axis_mean (map fst (argwhere_pos a))))
            \<and> bounds_min v = (int (axis_min (map (snd \<circ> snd) (argwhere_pos a))),
                              int (axis_min (map (fst \<circ> snd) (argwhere_pos a))),
                              int (axis_min (map fst (argwhere_pos a))))
            \<and> bounds_max v = (int (axis_max (map (snd \<circ> snd) (argwhere_pos a))),
                              int (axis_max (map (fst \<circ> snd) (argwhere_pos a))),
                              int (axis_max (map fst (argwhere_pos a))))"
    using f facts(5,6,7) by blast
  show ?thesis using x y z w by blast
qed

theorem center_within_bounds_witness:
  "fst (parse_segmentation_results
          [\<lparr>file_name = ''vertebrae_C7.nii.gz'',
            read_image = Inr [[[0, 0, 0], [0, 1, 1]], [[0, 0, 0], [0, 0, 1]], [[0, 0, 0], [0, 0, 1]]]\<rparr>]
          \<lparr>spacing = (1, 1, 1), origin = (0, 0, 0)\<rparr>)
     = Inr [\<lparr>label = ''C7'', center = (2, 1, 1), center_physical = (7 / 4, 1, 3 / 4),
             bounds_min = (1, 1, 0), bounds_max = (2, 1, 2),
             confidence = 1 / 250, voxel_count = 4\<rparr>]
   \<and> (1 :: int) \<le> 2 \<and> (2 :: int) \<le> 2 \<and> (0 :: int) \<le> 1 \<and> (1 :: int) \<le> 2"
proof -
  let ?dir = "[\<lparr>file_name = ''vertebrae_C7.nii.gz'',
                 read_image = Inr [[[0, 0, 0], [0, 1, 1]], [[0, 0, 0], [0, 0, 1]],
                                   [[0, 0, 0], [0, 0, 1 :: int]]]\<rparr>]"
  let ?img = "\<lparr>spacing = (1, 1, 1), origin = (0, 0, 0)\<rparr>"
  let ?v = "\<lparr>label = ''C7'', center = (2, 1, 1), center_physical = (7 / 4, 1, 3 / 4),
             bounds_min = (1, 1, 0), bounds_max = (2, 1, 2),
             confidence = 1 / 250, voxel_count = 4\<rparr>"
  have h: "fst (parse_segmentation_results ?dir ?img) = Inr [?v]"
    by code_simp
  have m: "?v \<in> set [?v]" by simp
  show ?thesis
    using h center_within_bounds [OF h m] by simp
qed




section \<open>The physical-coordinate transform\<close>

text \<open>
  Claim C9. With strictly positive spacing, mapping a voxel position through the transform
  of the source, \<open>physical[i] = voxel_index[i] * spacing[i] + origin[i]\<close> with the array
  order (z, y, x) turned into (x, y, z), and then through the inverse
  \<open>(physical[i] - origin[i]) / spacing[i]\<close> gives the position back, exactly, over the
  rationals.
\<close>

theorem physical_transform_round_trip:
  assumes "spacing img = (s0, s1, s2)" and "0 < s0" and "0 < s1" and "0 < s2"
  shows "physical_to_voxel img (voxel_to_physical img (z, y, x)) = (z, y, x)
       \<and> voxel_to_physical img (z, y, x)
           = (x * s0 + fst (origin img), y * s1 + fst (snd (origin img)),
              z * s2 + snd (snd (origin img)))"
  using assms
  by (cases "origin img") (simp add: physical_to_voxel_def voxel_to_physical_def)

theorem physical_transform_round_trip_witness:
  "physical_to_voxel \<lparr>spacing = (1 / 2, 3 / 4, 5 / 2), origin = (-10, 20, 7 / 3)\<rparr>
     (voxel_to_physical \<lparr>spacing = (1 / 2, 3 / 4, 5 / 2), origin = (-10, 20, 7 / 3)\<rparr> (3, 11, 42))
   = (3, 11, 42)
   \<and> voxel_to_physical \<lparr>spacing = (1 / 2, 3 / 4, 5 / 2), origin = (-10, 20, 7 / 3)\<rparr> (3, 11, 42)
   = (11, 113 / 4, 59 / 6)"
proof -
  let ?img = "\<lparr>spacing = (1 / 2, 3 / 4, 5 / 2), origin = (-10, 20, 7 / 3)\<rparr>"
  have s: "spacing ?img = (1 / 2, 3 / 4, 5 / 2)" by simp
  show ?thesis
    using physical_transform_round_trip [OF s, where z = 3 and y = 11 and x = 42]
    by (simp add: physical_to_voxel_def)
qed

section \<open>Labels without a sort key\<close>

text \<open>
  Claim C10. The sort key of a label is defined exactly when the label is not empty and
  \<open>int\<close> accepts the characters after the first. When the directory holds a file that
  passes the name filter, loads, has occupied voxels and whose label has no sort key, as
  \<open>vertebrae_body\<close> with label \<open>body\<close>, the final sort raises and the whole call
  fails, whatever else the directory holds.
\<close>

theorem non_numeric_label_fails_extraction:
  assumes "f \<in> set output_dir"
    and "suffix ''.nii.gz'' (file_name f)"
    and "prefix ''vertebrae_'' (label_name_of (file_name f))"
    and "read_image f = Inr a"
    and "argwhere_pos a \<noteq> []"
    and "py_int (tl (vertebra_id_of (file_name f))) = None"
  shows "isl (fst (parse_segmentation_results output_dir img))
       \<and> ((\<exists>k. vertebra_sort_key l = Inr k) \<longleftrightarrow> l \<noteq> [] \<and> py_int (tl l) \<noteq> None)"
proof -
  obtain v where v: "process_mask img (vertebra_id_of (file_name f)) a = Some v"
    using process_mask_nonempty [OF assms(5)] by blast
  have "process_file img f = Emit v"
    using assms(3,4) v by (rule process_file_mask)
  moreover have "f \<in> set (glob_nii_gz output_dir)"
    using assms(1,2) by (simp add: glob_nii_gz_def)
  ultimately have mem: "v \<in> set (fst (collect img (glob_nii_gz output_dir)))"
    by (rule collect_member [rotated])
  have "label v = vertebra_id_of (file_name f)"
    using process_mask_Some(2) [OF v] .
  then have "isl (vertebra_sort_key (label v))"
    using assms(6) by (simp add: vertebra_sort_key_isl)
  then have "isl (fst (parse_segmentation_results output_dir img))"
    using mem unfolding parse_result py_sort_fails_iff by blast
  then show ?thesis using vertebra_sort_key_defined by simp
qed

theorem non_numeric_label_fails_extraction_witness:
  "vertebra_id_of ''vertebrae_body.nii.gz'' = ''body''
   \<and> py_int ''ody'' = None
   \<and> parse_segmentation_results
        [\<lparr>file_name = ''vertebrae_L1.nii.gz'', read_image = Inr [[[1]]]\<rparr>,
         \<lparr>file_name = ''vertebrae_body.nii.gz'', read_image = Inr [[[0, 1]]]\<rparr>]
        \<lparr>spacing = (1, 1, 1), origin = (0, 0, 0)\<rparr>
     = (Inl (Raised ValueError
               (''invalid literal for int() with base 10: '' @ [CHR 0x27] @ ''ody'' @ [CHR 0x27])),
          [])
   \<and> isl (fst (parse_segmentation_results
        [\<lparr>file_name = ''vertebrae_L1.nii.gz'', read_image = Inr [[[1]]]\<rparr>,
         \<lparr>file_name = ''vertebrae_body.nii.gz'', read_image = Inr [[[0, 1]]]\<rparr>]
        \<lparr>spacing = (1, 1, 1), origin = (0, 0, 0)\<rparr>))"
proof -
  let ?g = "\<lparr>file_name = ''vertebrae_L1.nii.gz'', read_image = Inr [[[1 :: int]]]\<rparr>"
  let ?f = "\<lparr>file_name = ''vertebrae_body.nii.gz'', read_image = Inr [[[0, 1 :: int]]]\<rparr>"
  let ?img = "\<lparr>spacing = (1, 1, 1), origin = (0, 0, 0)\<rparr>"
  have a1: "?f \<in> set [?g, ?f]" by simp
  have a2: "suffix ''.nii.gz'' (file_name ?f)" by code_simp
  have a3: "prefix ''vertebrae_'' (label_name_of (file_name ?f))" by code_simp
  have a4: "read_image ?f = Inr [[[0, 1]]]" by simp
  have a5: "argwhere_pos [[[0, 1]]] \<noteq> []" by code_simp
  have a6: "py_int (tl (vertebra_id_of (file_name ?f))) = None" by code_simp
  have b1: "vertebra_id_of ''vertebrae_body.nii.gz'' = ''body''" by code_simp
  have b2: "py_int ''ody'' = None" by code_simp
  have b3: "parse_segmentation_results [?g, ?f] ?img
              = (Inl (Raised ValueError
               (''invalid literal for int() with base 10: '' @ [CHR 0x27] @ ''ody'' @ [CHR 0x27])),
          [])"
    by code_simp
  show ?thesis
    using non_numeric_label_fails_extraction [OF a1 a2 a3 a4 a5 a6, where img = ?img] b1 b2 b3
    by simp
qed

section \<open>Anatomical ordering\<close>

text \<open>
  Claim C2. For every list of labels \<open><Section><Number>\<close> with a positive decimal
  number, the sort of the source succeeds and returns a permutation in which the labels
  of the sections C, T, L, S stand by section rank first and by the number, compared as an
  integer, second, and every label of another section stands after all labels of these four.
  In particular T12, T2, C7, L1, S1, C1 is sorted to C1, C7, T2, T12, L1, S1.
\<close>

theorem labels_sorted_anatomically:
  assumes "list_all numbered_label (map lab xs)"
  shows "(\<exists>out. py_sort (\<lambda>v. vertebra_sort_key (lab v)) xs = Inr out
            \<and> mset out = mset xs
            \<and> sorted_wrt (\<lambda>a b. anatomical_before (lab a) (lab b)) out)
       \<and> py_sort vertebra_sort_key [''T12'', ''T2'', ''C7'', ''L1'', ''S1'', ''C1'']
           = Inr [''C1'', ''C7'', ''T2'', ''T12'', ''L1'', ''S1'']"
proof -
  let ?g = "\<lambda>v. key_of (lab v)"
  have "\<forall>x\<in>set xs. vertebra_sort_key (lab x) = Inr (?g x)"
    using assms by (simp add: list_all_iff numbered_label_key)
  then have s: "py_sort (\<lambda>v. vertebra_sort_key (lab v)) xs = Inr (sort_key ?g xs)"
    by (rule py_sort_total)
  have "sorted (map ?g (sort_key ?g xs))" by (rule sorted_sort_key)
  then have "sorted_wrt (\<lambda>a b. ?g a \<le> ?g b) (sort_key ?g xs)"
    by (simp only: sorted_map)
  then have o: "sorted_wrt (\<lambda>a b. anatomical_before (lab a) (lab b)) (sort_key ?g xs)"
    by (rule sorted_wrt_mono_rel [rotated]) (simp add: key_le_before)
  have m: "mset (sort_key ?g xs) = mset xs" by (rule mset_sort)
  have e: "py_sort vertebra_sort_key [''T12'', ''T2'', ''C7'', ''L1'', ''S1'', ''C1'']
             = Inr [''C1'', ''C7'', ''T2'', ''T12'', ''L1'', ''S1'']"
    by code_simp
  show ?thesis using s o m e by blast
qed

theorem labels_sorted_anatomically_witness:
  "list_all numbered_label [''T12'', ''X3'', ''T2'', ''C7'', ''L1'', ''S1'', ''C1'']
   \<and> py_sort vertebra_sort_key [''T12'', ''X3'', ''T2'', ''C7'', ''L1'', ''S1'', ''C1'']
       = Inr [''C1'', ''C7'', ''T2'', ''T12'', ''L1'', ''S1'', ''X3'']
   \<and> sorted_wrt anatomical_before [''C1'', ''C7'', ''T2'', ''T12'', ''L1'', ''S1'', ''X3'']"
proof -
  let ?xs = "[''T12'', ''X3'', ''T2'', ''C7'', ''L1'', ''S1'', ''C1'']"
  have h: "list_all numbered_label (map (\<lambda>l. l) ?xs)" by code_simp
  have r: "py_sort vertebra_sort_key ?xs
             = Inr [''C1'', ''C7'', ''T2'', ''T12'', ''L1'', ''S1'', ''X3'']"
    by code_simp
  show ?thesis
    using labels_sorted_anatomically [OF h] h r by auto
qed

section \<open>The inference orchestrator\<close>

lemma run_inference_try_load:
  "load_dicom w p = Inl e \<Longrightarrow> \<exists>e'. run_inference_try w self p roi = Inl e'"
  by (simp add: run_inference_try_def)

lemma run_inference_try_model:
  assumes "load_dicom w p = Inr img"
    and "isl (totalsegmentator w p (roi_or_default roi) (fast_mode self) (device self))"
  shows "\<exists>e'. run_inference_try w self p roi = Inl e'"
  using assms
  by (cases "totalsegmentator w p (roi_or_default roi) (fast_mode self) (device self)")
     (auto simp: run_inference_try_def Let_def split: option.splits)

lemma run_inference_try_parse:
  assumes "load_dicom w p = Inr img"
    and "totalsegmentator w p (roi_or_default roi) (fast_mode self) (device self) = Inr output_dir"
    and "isl (fst (parse_segmentation_results output_dir img))"
  shows "\<exists>e'. run_inference_try w self p roi = Inl e'"
  using assms
  by (cases "fst (parse_segmentation_results output_dir img)")
     (auto simp: run_inference_try_def Let_def split: option.splits)

text \<open>
  Claim C1. For every input path, device and fast-mode flag, and whatever the readers, the
  temporary directory and the external model do, \<open>run_inference\<close> returns a result and
  raises nothing. Whenever loading the volume, the external model or the parsing of its
  output raises, the result has \<open>success = False\<close>, an error message, and the elapsed
  time in milliseconds rounded to two decimals.
\<close>

theorem run_inference_never_raises:
  "(\<exists>r. run_inference w self input_path roi_subset = Inr r)
   \<and> (isl (load_dicom w input_path)
        \<or> (\<exists>img. load_dicom w input_path = Inr img
             \<and> (isl (totalsegmentator w input_path (roi_or_default roi_subset)
                        (fast_mode self) (device self))
                 \<or> (\<exists>output_dir.
                       totalsegmentator w input_path (roi_or_default roi_subset)
                         (fast_mode self) (device self) = Inr output_dir
                       \<and> isl (fst (parse_segmentation_results output_dir img)))))
      \<longrightarrow> (\<exists>msg. run_inference w self input_path roi_subset
                   = Inr \<lparr> success = False, error = Some msg, vertebrae = None,
                           processing_time_ms =
                             py_round_ndigits ((time_failed w - time_start w) * 1000) 2,
                           result_device = None, result_fast_mode = None \<rparr>))"
proof -
  have total: "\<exists>r. run_inference w self input_path roi_subset = Inr r"
    by (simp add: run_inference_def split: sum.splits)
  have handler: "\<exists>msg. run_inference w self input_path roi_subset
                   = Inr \<lparr> success = False, error = Some msg, vertebrae = None,
                           processing_time_ms =
                             py_round_ndigits ((time_failed w - time_start w) * 1000) 2,
                           result_device = None, result_fast_mode = None \<rparr>"
    if "\<exists>e'. run_inference_try w self input_path roi_subset = Inl e'"
    using that by (auto simp: run_inference_def)
  have raised: "\<exists>e'. run_inference_try w self input_path roi_subset = Inl e'"
    if "isl (load_dicom w input_path)
        \<or> (\<exists>img. load_dicom w input_path = Inr img
             \<and> (isl (totalsegmentator w input_path (roi_or_default roi_subset)
                        (fast_mode self) (device self))
                 \<or> (\<exists>output_dir.
                       totalsegmentator w input_path (roi_or_default roi_subset)
                         (fast_mode self) (device self) = Inr output_dir
                       \<and> isl (fst (parse_segmentation_results output_dir img)))))"
    using that run_inference_try_load run_inference_try_model run_inference_try_parse
    by (metis isl_def)
  show ?thesis using total handler raised by blast
qed

theorem run_inference_never_raises_witness:
  "run_inference
     \<lparr> time_start = 100, time_done = 0, time_failed = 100 + 1234567 / 1000000,
       dcmread = (\<lambda>p. None),
       sitk_ReadImage = (\<lambda>p. Inr \<lparr>spacing = (1, 1, 1), origin = (0, 0, 0)\<rparr>),
       tempdir_create = None, tempdir_cleanup = None,
       totalsegmentator = (\<lambda>p roi fast dev. Inl (Raised RuntimeError ''CUDA out of memory'')) \<rparr>
     \<lparr> device = ''cuda'', fast_mode = True \<rparr> ''scan.dcm'' None
   = Inr \<lparr> success = False, error = Some ''CUDA out of memory'', vertebrae = None,
           processing_time_ms = 123457 / 100, result_device = None, result_fast_mode = None \<rparr>"
proof -
  let ?w = "\<lparr> time_start = 100, time_done = 0, time_failed = 100 + 1234567 / 1000000,
       dcmread = (\<lambda>p. None),
       sitk_ReadImage = (\<lambda>p. Inr \<lparr>spacing = (1, 1, 1), origin = (0, 0, 0)\<rparr>),
       tempdir_create = None, tempdir_cleanup = None,
       totalsegmentator = (\<lambda>p roi fast dev. Inl (Raised RuntimeError ''CUDA out of memory'')) \<rparr>"
  let ?d = "\<lparr> device = ''cuda'', fast_mode = True \<rparr>"
  have t0: "py_round_ndigits (1234567 / 1000) 2 = 123457 / 100"
    by code_simp
  have t: "py_round_ndigits ((time_failed ?w - time_start ?w) * 1000) 2 = 123457 / 100"
    using t0 by simp
  have r: "run_inference_try ?w ?d ''scan.dcm'' None = Inl (Raised RuntimeError ''CUDA out of memory'')"
    by (simp add: run_inference_try_def load_dicom_def)
  show ?thesis
    using run_inference_never_raises [of ?w ?d "''scan.dcm''" None] t r
    by (simp add: run_inference_def)
qed

section \<open>The model cache manager\<close>

text \<open>
  Claim C7, as the code has it. For every registered task, when the import of the model
  runtime fails and a progress callback was given, \<open>download_model\<close> gives the callback
  the \<open>preparing\<close> event and then an event with status \<open>error\<close>, a message and progress
  0, and raises the failure again to its caller. Without a callback it reports nothing and
  raises.
\<close>

theorem download_model_reports_then_raises:
  assumes "map_of AVAILABLE_TASKS task = Some info"
    and "import_totalsegmentator w = Some e"
  shows "download_model w task True
           = (Inl e,
              [\<lparr> status = ''preparing'',
                 message = ''Preparing to download '' @ task_name info,
                 progress = 0 \<rparr>,
               \<lparr> status = ''error'',
                 message = ''Failed to prepare models: '' @ str_exn e,
                 progress = 0 \<rparr>])
       \<and> download_model w task False = (Inl e, [])"
  using assms by (simp add: download_model_def)

theorem download_model_reports_then_raises_witness:
  "map_of AVAILABLE_TASKS ''total_body''
     = Some \<lparr> task_name = ''Total Body Segmentation'',
              task_description = ''Segments 104 anatomical structures'',
              task_id = ''total'', approximate_size_mb = 5120, structures = [] \<rparr>
   \<and> download_model
        \<lparr> home_path = ''/home/user'', home = [],
          import_totalsegmentator = Some (Raised ImportError ''No module named torch'') \<rparr>
        ''total_body'' True
     = (Inl (Raised ImportError ''No module named torch''),
        [\<lparr> status = ''preparing'',
           message = ''Preparing to download Total Body Segmentation'',
           progress = 0 \<rparr>,
         \<lparr> status = ''error'',
           message = ''Failed to prepare models: No module named torch'',
           progress = 0 \<rparr>])"
proof -
  let ?w = "\<lparr> home_path = ''/home/user'', home = [],
              import_totalsegmentator = Some (Raised ImportError ''No module named torch'') \<rparr>"
  have t: "map_of AVAILABLE_TASKS ''total_body''
     = Some \<lparr> task_name = ''Total Body Segmentation'',
              task_description = ''Segments 104 anatomical structures'',
              task_id = ''total'', approximate_size_mb = 5120, structures = [] \<rparr>"
    by (simp add: AVAILABLE_TASKS_def)
  have i: "import_totalsegmentator ?w = Some (Raised ImportError ''No module named torch'')"
    by simp
  show ?thesis
    using download_model_reports_then_raises [OF t i] t by simp
qed

text \<open>
  Claim C7 as stated does not hold: on a registered task with a failing import the call
  reports the error event and still ends by raising the exception.
\<close>

theorem download_model_reraises:
  "download_model
     \<lparr> home_path = ''/home/user'', home = [],
       import_totalsegmentator = Some (Raised ImportError ''No module named totalsegmentator'') \<rparr>
     ''vertebrae'' True
   = (Inl (Raised ImportError ''No module named totalsegmentator''),
      [\<lparr> status = ''preparing'',
         message = ''Preparing to download Vertebrae Segmentation'',
         progress = 0 \<rparr>,
       \<lparr> status = ''error'',
         message = ''Failed to prepare models: No module named totalsegmentator'',
         progress = 0 \<rparr>])"
  by (simp add: download_model_def AVAILABLE_TASKS_def)

text \<open>
  Claim C8, as the code has it. For every registered task, when the cache root
  \<open>~/.totalsegmentator\<close> does not exist, \<open>delete_model\<close> raises nothing, leaves the file
  system as it is, and returns \<open>success = False\<close> with the message
  \<open>No models found to delete\<close>; the result has no freed-space entry.
\<close>

theorem delete_model_absent_cache:
  assumes "map_of AVAILABLE_TASKS task = Some info"
    and "lookup_path (home w) [''.totalsegmentator''] = None"
  shows "delete_model w task
           = (Inr \<lparr> delete_success = False, delete_message = ''No models found to delete'',
                    freed_space_mb = None \<rparr>,
              home w)"
  using assms by (simp add: delete_model_def)

theorem delete_model_absent_cache_witness:
  "lookup_path [Dir ''.openscans'' [Dir ''models'' []]] [''.totalsegmentator''] = None
   \<and> delete_model \<lparr> home_path = ''/home/user'', home = [Dir ''.openscans'' [Dir ''models'' []]],
                    import_totalsegmentator = None \<rparr> ''total_body''
     = (Inr \<lparr> delete_success = False, delete_message = ''No models found to delete'',
              freed_space_mb = None \<rparr>,
        [Dir ''.openscans'' [Dir ''models'' []]])"
proof -
  let ?w = "\<lparr> home_path = ''/home/user'', home = [Dir ''.openscans'' [Dir ''models'' []]],
              import_totalsegmentator = None \<rparr>"
  have t: "map_of AVAILABLE_TASKS ''total_body''
     = Some \<lparr> task_name = ''Total Body Segmentation'',
              task_description = ''Segments 104 anatomical structures'',
              task_id = ''total'', approximate_size_mb = 5120, structures = [] \<rparr>"
    by (simp add: AVAILABLE_TASKS_def)
  have l: "lookup_path (home ?w) [''.totalsegmentator''] = None" by simp
  show ?thesis
    using delete_model_absent_cache [OF t l] l by simp
qed

text \<open>
  Claim C8 as stated does not hold: with nothing cached the result carries no freed-space
  value, where the claim has a value of zero.
\<close>

theorem delete_model_without_cache_returns_no_freed_value:
  "delete_model \<lparr> home_path = ''/home/user'', home = [File ''notes.txt'' 12],
                  import_totalsegmentator = None \<rparr> ''vertebrae''
   = (Inr \<lparr> delete_success = False, delete_message = ''No models found to delete'',
            freed_space_mb = None \<rparr>,
      [File ''notes.txt'' 12])"
  by (simp add: delete_model_def AVAILABLE_TASKS_def)

end
